theory Spec2Isabelle
  imports Main "HOL-Library.Word"
begin

text \<open>
  The Form Recognizer client of the Azure SDK for JavaScript: the class
  \<open>FormRecognizerClient\<close> with its constructor, its eight \<open>begin...\<close> methods and
  \<open>getRecognizedContent\<close>, and the functions \<open>processOperationLocation\<close>,
  \<open>makeSpanner\<close> and \<open>recognizeLayoutInternal\<close> of the same module. The module is
  translated function by function; what it imports is a parameter or, where the
  specification describes it, a definition that says so. The properties proved are about
  the requests the client sends, the errors it throws and the spans and progress
  notifications it leaves in a log.
\<close>

section \<open>JavaScript values used by the Form Recognizer client\<close>

text \<open>
  A JavaScript string is a list of code units. The only code unit the client inspects is
  the separator \<open>/\<close>, so strings are modelled as HOL strings. An optional value
  (\<open>x?: T\<close>, possibly \<open>undefined\<close>) is a \<open>T option\<close>.

  An error object is the name of its class and its message. Every \<open>throw\<close> of the
  module creates one, and so do the generated client and the transform when they fail.
  The language lets a function throw any value, though: an error object,
  \<open>undefined\<close>, \<open>null\<close>, or another value that has no property \<open>message\<close> (a
  string, a number, a plain object), kept here by its text.
\<close>

type_synonym js_string = string

datatype js_error = JsError (errorName: js_string) (message: js_string)

datatype thrown = Thrown js_error | ThrownUndefined | ThrownNull | ThrownOther js_string

definition new_Error :: "js_string \<Rightarrow> thrown" where
  "new_Error msg = Thrown (JsError ''Error'' msg)"

definition new_RangeError :: "js_string \<Rightarrow> thrown" where
  "new_RangeError msg = Thrown (JsError ''RangeError'' msg)"

definition new_TypeError :: "js_string \<Rightarrow> thrown" where
  "new_TypeError msg = Thrown (JsError ''TypeError'' msg)"

text \<open>
  The expression \<open>e.message\<close> for a caught value \<open>e\<close>: the message of an error object;
  \<open>undefined\<close> for a value that has no such property; and for \<open>undefined\<close> and
  \<open>null\<close> the read itself throws a \<open>TypeError\<close>. The text of that error is the
  engine's and not fixed by the language; the one that V8 has given is used here.
\<close>

fun readMessage :: "thrown \<Rightarrow> thrown + js_string option" where
  "readMessage (Thrown e) = Inr (Some (message e))"
| "readMessage (ThrownOther v) = Inr None"
| "readMessage ThrownUndefined =
     Inl (new_TypeError ''Cannot read property 'message' of undefined'')"
| "readMessage ThrownNull =
     Inl (new_TypeError ''Cannot read property 'message' of null'')"

text \<open>
  \<open>String.prototype.lastIndexOf\<close> for a search string of one code unit: the greatest
  index holding that unit, or \<open>-1\<close> when there is none.
\<close>

fun lastIndexOf :: "'a list \<Rightarrow> 'a \<Rightarrow> int" where
  "lastIndexOf [] c = - 1"
| "lastIndexOf (x # xs) c =
     (let i = lastIndexOf xs c
      in if 0 \<le> i then i + 1 else if x = c then 0 else - 1)"

text \<open>
  \<open>String.prototype.substring\<close> with one argument: the start index is clamped to
  the range from 0 to the length, and the rest of the string is returned.
\<close>

definition substring :: "'a list \<Rightarrow> int \<Rightarrow> 'a list" where
  "substring s start = drop (nat (max 0 (min start (int (length s))))) s"

section \<open>Extracting the result id from an operation location\<close>

text \<open>The interface \<open>RemoteOperation\<close>: an operation that can be queried.\<close>

record RemoteOperation =
  operationLocation :: "js_string option"

definition noOperationLocation :: thrown where
  "noOperationLocation =
     new_Error ''The service did not respond with an 'operationLocation' to retrieve results.''"

text \<open>
  \<open>processOperationLocation\<close>: \<open>!operationLocation\<close> holds for \<open>undefined\<close> and for
  the empty string; both throw. Otherwise the result id is what follows the last slash.
\<close>

definition processOperationLocation :: "RemoteOperation \<Rightarrow> thrown + js_string" where
  "processOperationLocation remoteOperation =
     (case operationLocation remoteOperation of
        None \<Rightarrow> Inl noOperationLocation
      | Some loc \<Rightarrow>
          if loc = [] then Inl noOperationLocation
          else
            (let lastSlashIndex = lastIndexOf loc (CHR ''/'')
             in Inr (substring loc (lastSlashIndex + 1))))"

section \<open>The world: an event log\<close>

text \<open>
  Everything the client does beyond computing values is recorded, in order, in a log:
  the requests handed to the generated HTTP client, the tracing spans that are started,
  marked and ended, the warnings written to the logger and the progress callbacks that
  are fired. A computation takes the log and returns its outcome (a thrown value on the
  left, a returned value on the right) with the extended log.
\<close>

datatype FormContentType = ApplicationPdf | ImageJpeg | ImagePng | ImageTiff

fun contentTypeName :: "FormContentType \<Rightarrow> js_string" where
  "contentTypeName ApplicationPdf = ''application/pdf''"
| "contentTypeName ImageJpeg = ''image/jpeg''"
| "contentTypeName ImagePng = ''image/png''"
| "contentTypeName ImageTiff = ''image/tiff''"

type_synonym bytes = "8 word list"

text \<open>
  \<open>FormRecognizerRequestBody\<close>: a buffer of bytes, or a readable stream, which either
  fails when it is read or yields its bytes. The functions of the client whose parameter
  has the type \<open>FormRecognizerRequestBody | string\<close> take a \<open>FormSource\<close>.
\<close>

datatype FormRecognizerRequestBody = Buffer bytes | ReadableStream "thrown + bytes"

datatype FormSource = Document FormRecognizerRequestBody | UrlString js_string

text \<open>
  What is handed to the generated client as the body: binary data, or a \<open>SourcePath\<close>
  object \<open>{ source: url }\<close>.
\<close>

datatype RequestBody = Binary bytes | SourcePath js_string

datatype OperationStatus = notStarted | running | succeeded | failed

text \<open>
  The status of a poller, as the specification lists it; the first four are the statuses
  the service reports.
\<close>

datatype PollStatus = NotStarted | Running | Succeeded | Failed | Canceled

fun fromOperationStatus :: "OperationStatus \<Rightarrow> PollStatus" where
  "fromOperationStatus notStarted = NotStarted"
| "fromOperationStatus running = Running"
| "fromOperationStatus succeeded = Succeeded"
| "fromOperationStatus failed = Failed"

fun isTerminal :: "PollStatus \<Rightarrow> bool" where
  "isTerminal Succeeded = True"
| "isTerminal Failed = True"
| "isTerminal Canceled = True"
| "isTerminal NotStarted = False"
| "isTerminal Running = False"

text \<open>
  The options of the \<open>begin...\<close> methods: the union of \<open>OperationOptions\<close> (of which
  the tracing options are kept: the parent span, if any), \<open>BeginRecognizeContentOptions\<close>,
  \<open>BeginRecognizeFormsOptions\<close> and the \<open>locale\<close> (here \<open>documentLocale\<close>) of the
  receipt and business card options, and \<open>includeTextDetails\<close>, which the methods add
  themselves. The progress callback is modelled by what it does with the status it is
  shown: it returns, or throws.
\<close>

record Options =
  tracingOptions :: "js_string option"
  contentType :: "FormContentType option"
  includeFieldElements :: "bool option"
  includeTextDetails :: "bool option"
  documentLocale :: "js_string option"
  updateIntervalInMs :: "nat option"
  onProgress :: "(PollStatus \<Rightarrow> thrown option) option"
  resumeFrom :: "js_string option"

definition emptyOptions :: Options where
  "emptyOptions =
     \<lparr>tracingOptions = None, contentType = None, includeFieldElements = None,
      includeTextDetails = None, documentLocale = None, updateIntervalInMs = None,
      onProgress = None, resumeFrom = None\<rparr>"

text \<open>
  \<open>RequestOptionsBase\<close> of the HTTP library: the properties of the options object given
  to the generated client, each with its value written out.
\<close>

type_synonym RequestOptionsBase = "(js_string \<times> js_string) list"

text \<open>
  The calls of the generated client. The first four of each kind start an analysis and
  carry the content type argument (\<open>None\<close> is \<open>undefined\<close>), the body and the request
  options; the binary overload \<open>(contentType, body, options)\<close> and the JSON overload
  \<open>(''application/json'', { fileStream: body, ...options })\<close> carry the same three. The
  others fetch a result by its id (and, for a custom model, by the model id).
\<close>

datatype request =
    AnalyzeLayoutAsync "js_string option" RequestBody RequestOptionsBase
  | AnalyzeWithCustomModel js_string "js_string option" RequestBody RequestOptionsBase
  | AnalyzeBusinessCardAsync "js_string option" RequestBody RequestOptionsBase
  | AnalyzeReceiptAsync "js_string option" RequestBody RequestOptionsBase
  | GetAnalyzeLayoutResult js_string RequestOptionsBase
  | GetAnalyzeFormResult "js_string option" js_string RequestOptionsBase
  | GetAnalyzeBusinessCardResult js_string RequestOptionsBase
  | GetAnalyzeReceiptResult js_string RequestOptionsBase

fun isFetch :: "request \<Rightarrow> bool" where
  "isFetch (GetAnalyzeLayoutResult _ _) = True"
| "isFetch (GetAnalyzeFormResult _ _ _) = True"
| "isFetch (GetAnalyzeBusinessCardResult _ _) = True"
| "isFetch (GetAnalyzeReceiptResult _ _) = True"
| "isFetch _ = False"

datatype CanonicalCode = UNKNOWN

datatype event =
    SpanStart js_string
  | SpanSetStatus js_string CanonicalCode "js_string option"
  | SpanEnd js_string
  | Sent request
  | LoggerWarning js_string
  | ProgressFired PollStatus

type_synonym world = "event list"

type_synonym 'a io = "world \<Rightarrow> (thrown + 'a) \<times> world"

definition return_io :: "'a \<Rightarrow> 'a io" where
  "return_io x w = (Inr x, w)"

definition throw_io :: "thrown \<Rightarrow> 'a io" where
  "throw_io e w = (Inl e, w)"

definition bind_io :: "'a io \<Rightarrow> ('a \<Rightarrow> 'b io) \<Rightarrow> 'b io" where
  "bind_io m f w = (case m w of (Inl e, w') \<Rightarrow> (Inl e, w') | (Inr x, w') \<Rightarrow> f x w')"

definition lift_io :: "thrown + 'a \<Rightarrow> 'a io" where
  "lift_io r w = (r, w)"

text \<open>The outcome of a collaborator that fails with an error object: the object is thrown.\<close>

definition lift_failure :: "js_error + 'a \<Rightarrow> 'a io" where
  "lift_failure r w = (map_sum Thrown id r, w)"

definition emit :: "event \<Rightarrow> unit io" where
  "emit ev w = (Inr (), w @ [ev])"

text \<open>
  \<open>try { body } catch (e) { handler } finally { fin }\<close>, for a \<open>finally\<close> block that
  does not throw.
\<close>

definition try_catch_finally ::
  "'a io \<Rightarrow> (thrown \<Rightarrow> 'a io) \<Rightarrow> (world \<Rightarrow> world) \<Rightarrow> 'a io" where
  "try_catch_finally body handler fin w =
     (case body w of
        (Inr x, w1) \<Rightarrow> (Inr x, fin w1)
      | (Inl e, w1) \<Rightarrow> (case handler e w1 of (r, w2) \<Rightarrow> (r, fin w2)))"

text \<open>
  A call of an \<open>async\<close> function runs the body up to its first \<open>await\<close> and returns
  a promise: the promise is the computation that is still to run, and \<open>await\<close> runs
  it. So the call of such a function is a computation of its own: it leaves in the log
  what the function does before it returns, and yields the promise; \<open>async rest\<close> is
  the return of the promise of \<open>rest\<close>. A function that logs nothing before its first
  \<open>await\<close>, or whose callers all await it at once, is given by its promise alone.
\<close>

type_synonym 'a promise = "'a io"

definition async :: "'a io \<Rightarrow> ('a promise) io" where
  "async rest = return_io rest"

definition await :: "'a promise \<Rightarrow> 'a io" where
  "await p = p"

definition requests :: "world \<Rightarrow> request list" where
  "requests w = concat (map (\<lambda>ev. case ev of Sent r \<Rightarrow> [r] | _ \<Rightarrow> []) w)"



definition fetches :: "world \<Rightarrow> request list" where
  "fetches w = filter isFetch (requests w)"

definition progressEvents :: "world \<Rightarrow> PollStatus list" where
  "progressEvents w = concat (map (\<lambda>ev. case ev of ProgressFired s \<Rightarrow> [s] | _ \<Rightarrow> []) w)"

section \<open>The client and its collaborators\<close>

text \<open>
  Modelled from the spec: the authentication collaborator, which is not among the sources,
  supplies either a bearer-token credential or a static key credential;
  \<open>isTokenCredential\<close> of the HTTP library tells them apart. The two authentication
  policies and the pipeline made by \<open>createPipelineFromOptions\<close> are kept as the data
  they are built from. Of the client options the constructor reads the user agent options;
  of the logging options the two lists of names are kept.
\<close>

datatype Credential = TokenCredential js_string | KeyCredential js_string

fun isTokenCredential :: "Credential \<Rightarrow> bool" where
  "isTokenCredential (TokenCredential _) = True"
| "isTokenCredential (KeyCredential _) = False"

datatype RequestPolicyFactory =
    bearerTokenAuthenticationPolicy Credential js_string
  | createFormRecognizerAzureKeyCredentialPolicy Credential

record UserAgentOptions =
  userAgentPrefix :: "js_string option"

record FormRecognizerClientOptions =
  userAgentOptions :: "UserAgentOptions option"

record LoggingOptions =
  allowedHeaderNames :: "js_string list"
  allowedQueryParameters :: "js_string list"

record InternalPipelineOptions = FormRecognizerClientOptions +
  loggingOptions :: LoggingOptions

record Pipeline =
  pipelineOptions :: InternalPipelineOptions
  authPolicy :: RequestPolicyFactory

record GeneratedClient =
  endpoint :: js_string
  pipeline :: Pipeline

record FormRecognizerClient =
  endpointUrl :: js_string
  client :: GeneratedClient

text \<open>The responses of the result operations: a status and a payload that is not inspected.\<close>

record OperationStatusResponse =
  status :: OperationStatus

record AnalyzeOperationResult = OperationStatusResponse +
  analyzeResult :: "js_string option"

record RecognizeContentResultResponse = OperationStatusResponse +
  pages :: "js_string list"

record SerializedPollerState =
  operationKind :: js_string
  serializedHandle :: js_string
  lastKnownStatus :: PollStatus

text \<open>
  What the module imports and this development does not define is a parameter, collected
  in one record: the constants of \<open>./constants\<close>; the service behind the generated client
  (its answer to a request may depend on the client and on everything logged so far; when
  it fails, the generated client throws an error object);
  the magic number table of \<open>getContentType\<close>; \<open>operationOptionsToRequestOptionsBase\<close>
  of the HTTP library; the span options the tracer derives for a new span;
  \<open>toRecognizeContentResultResponse\<close> of \<open>./transforms\<close>, which throws an error
  object when it fails; and the parser of a serialized poller.
\<close>

record Env =
  SDK_VERSION :: js_string
  DEFAULT_COGNITIVE_SCOPE :: js_string
  FormRecognizerLoggingAllowedHeaderNames :: "js_string list"
  FormRecognizerLoggingAllowedQueryParameters :: "js_string list"
  startAnalysis :: "GeneratedClient \<Rightarrow> world \<Rightarrow> request \<Rightarrow> js_error + RemoteOperation"
  fetchResult :: "GeneratedClient \<Rightarrow> world \<Rightarrow> request \<Rightarrow> js_error + AnalyzeOperationResult"
  sniffContentType :: "bytes \<Rightarrow> thrown + FormContentType option"
  operationOptionsToRequestOptionsBase :: "Options \<Rightarrow> RequestOptionsBase"
  spanOptionsFor :: "js_string \<Rightarrow> js_string option \<Rightarrow> js_string option"
  toRecognizeContentResultResponse ::
    "AnalyzeOperationResult \<Rightarrow> js_error + RecognizeContentResultResponse"
  parseSerializedState :: "js_string \<Rightarrow> thrown + SerializedPollerState"

subsection \<open>The constructor\<close>

text \<open>
  \<open>FormRecognizerClient.constructor\<close>. A user agent prefix that is \<open>undefined\<close> or
  empty is replaced by the library's name and version; another one is extended by them.
\<close>

definition new_FormRecognizerClient ::
  "Env \<Rightarrow> js_string \<Rightarrow> Credential \<Rightarrow> FormRecognizerClientOptions option \<Rightarrow> FormRecognizerClient"
  where
  "new_FormRecognizerClient env endpointUrl' credential optionsArg =
     (let options = (case optionsArg of None \<Rightarrow> \<lparr>userAgentOptions = None\<rparr> | Some opts \<Rightarrow> opts);
          libInfo = ''azsdk-js-ai-formrecognizer/'' @ SDK_VERSION env;
          userAgent =
            (case userAgentOptions options of
               None \<Rightarrow> \<lparr>userAgentPrefix = None\<rparr>
             | Some ua \<Rightarrow> ua);
          userAgent' =
            (case userAgentPrefix userAgent of
               None \<Rightarrow> userAgent\<lparr>userAgentPrefix := Some libInfo\<rparr>
             | Some prefix \<Rightarrow>
                 if prefix = [] then userAgent\<lparr>userAgentPrefix := Some libInfo\<rparr>
                 else userAgent\<lparr>userAgentPrefix := Some (prefix @ '' '' @ libInfo)\<rparr>);
          authPolicy' =
            (if isTokenCredential credential
             then bearerTokenAuthenticationPolicy credential (DEFAULT_COGNITIVE_SCOPE env)
             else createFormRecognizerAzureKeyCredentialPolicy credential);
          internalPipelineOptions =
            \<lparr>userAgentOptions = Some userAgent',
             loggingOptions =
               \<lparr>allowedHeaderNames = FormRecognizerLoggingAllowedHeaderNames env,
                allowedQueryParameters = FormRecognizerLoggingAllowedQueryParameters env\<rparr>\<rparr>;
          pipeline' = \<lparr>pipelineOptions = internalPipelineOptions, authPolicy = authPolicy'\<rparr>
      in \<lparr>endpointUrl = endpointUrl',
          client = \<lparr>endpoint = endpointUrl', pipeline = pipeline'\<rparr>\<rparr>)"

subsection \<open>The generated client\<close>

text \<open>
  A call of the generated client hands one request to the service: the call logs the
  request and returns a promise, which settles with the service's answer to the request,
  its result or its failure.
\<close>

definition sendStart ::
  "Env \<Rightarrow> GeneratedClient \<Rightarrow> request \<Rightarrow> (RemoteOperation promise) io" where
  "sendStart env c req w = (Inr (lift_failure (startAnalysis env c w req)), w @ [Sent req])"

definition sendFetch ::
  "Env \<Rightarrow> GeneratedClient \<Rightarrow> request \<Rightarrow> (AnalyzeOperationResult promise) io" where
  "sendFetch env c req w = (Inr (lift_failure (fetchResult env c w req)), w @ [Sent req])"

definition analyzeLayoutAsync ::
  "Env \<Rightarrow> GeneratedClient \<Rightarrow> js_string option \<Rightarrow> RequestBody \<Rightarrow> RequestOptionsBase
     \<Rightarrow> (RemoteOperation promise) io" where
  "analyzeLayoutAsync env c ct body opts = sendStart env c (AnalyzeLayoutAsync ct body opts)"

definition analyzeWithCustomModel ::
  "Env \<Rightarrow> GeneratedClient \<Rightarrow> js_string \<Rightarrow> js_string option \<Rightarrow> RequestBody
     \<Rightarrow> RequestOptionsBase \<Rightarrow> (RemoteOperation promise) io" where
  "analyzeWithCustomModel env c modelId ct body opts =
     sendStart env c (AnalyzeWithCustomModel modelId ct body opts)"

definition analyzeBusinessCardAsync ::
  "Env \<Rightarrow> GeneratedClient \<Rightarrow> js_string option \<Rightarrow> RequestBody \<Rightarrow> RequestOptionsBase
     \<Rightarrow> (RemoteOperation promise) io" where
  "analyzeBusinessCardAsync env c ct body opts =
     sendStart env c (AnalyzeBusinessCardAsync ct body opts)"

definition analyzeReceiptAsync ::
  "Env \<Rightarrow> GeneratedClient \<Rightarrow> js_string option \<Rightarrow> RequestBody \<Rightarrow> RequestOptionsBase
     \<Rightarrow> (RemoteOperation promise) io" where
  "analyzeReceiptAsync env c ct body opts = sendStart env c (AnalyzeReceiptAsync ct body opts)"

definition getAnalyzeLayoutResult ::
  "Env \<Rightarrow> GeneratedClient \<Rightarrow> js_string \<Rightarrow> RequestOptionsBase
     \<Rightarrow> (AnalyzeOperationResult promise) io" where
  "getAnalyzeLayoutResult env c resultId opts =
     sendFetch env c (GetAnalyzeLayoutResult resultId opts)"

definition getAnalyzeFormResult ::
  "Env \<Rightarrow> GeneratedClient \<Rightarrow> js_string option \<Rightarrow> js_string \<Rightarrow> RequestOptionsBase
     \<Rightarrow> (AnalyzeOperationResult promise) io" where
  "getAnalyzeFormResult env c modelId resultId opts =
     sendFetch env c (GetAnalyzeFormResult modelId resultId opts)"

definition getAnalyzeBusinessCardResult ::
  "Env \<Rightarrow> GeneratedClient \<Rightarrow> js_string \<Rightarrow> RequestOptionsBase
     \<Rightarrow> (AnalyzeOperationResult promise) io" where
  "getAnalyzeBusinessCardResult env c resultId opts =
     sendFetch env c (GetAnalyzeBusinessCardResult resultId opts)"

definition getAnalyzeReceiptResult ::
  "Env \<Rightarrow> GeneratedClient \<Rightarrow> js_string \<Rightarrow> RequestOptionsBase
     \<Rightarrow> (AnalyzeOperationResult promise) io" where
  "getAnalyzeReceiptResult env c resultId opts =
     sendFetch env c (GetAnalyzeReceiptResult resultId opts)"

subsection \<open>Tracing, request bodies and content types\<close>

text \<open>
  Modelled from the spec: \<open>createSpan\<close> of \<open>./tracing\<close> is not among the sources. It is
  the tracing hook invoked around each call: it starts a span of the given name and
  returns it with the options, whose tracing options now refer to the span. A span is
  known by its name; \<open>setStatus\<close> and \<open>end\<close> are logged.
\<close>

definition optionsInSpan :: "Env \<Rightarrow> js_string \<Rightarrow> Options \<Rightarrow> Options" where
  "optionsInSpan env name options =
     options\<lparr>tracingOptions := spanOptionsFor env name (tracingOptions options)\<rparr>"

definition createSpan :: "Env \<Rightarrow> js_string \<Rightarrow> Options \<Rightarrow> (js_string \<times> Options) io" where
  "createSpan env name options w =
     (Inr (name, optionsInSpan env name options), w @ [SpanStart name])"

definition span_setStatus ::
  "js_string \<Rightarrow> CanonicalCode \<Rightarrow> js_string option \<Rightarrow> unit io" where
  "span_setStatus sp code msg = emit (SpanSetStatus sp code msg)"

definition span_end :: "js_string \<Rightarrow> world \<Rightarrow> world" where
  "span_end sp w = w @ [SpanEnd sp]"

text \<open>
  The \<open>catch\<close> block that the three \<open>try\<close> statements of the module share:
  \<open>span.setStatus({ code: CanonicalCode.UNKNOWN, message: e.message }); throw e;\<close>.
  The message is read first, for the argument of \<open>setStatus\<close>; when the read throws,
  the status is not set and \<open>e\<close> is not thrown again.
\<close>

definition setStatusAndRethrow :: "js_string \<Rightarrow> thrown \<Rightarrow> 'a io" where
  "setStatusAndRethrow span e =
     bind_io (lift_io (readMessage e))
       (\<lambda>msg. bind_io (span_setStatus span UNKNOWN msg) (\<lambda>_. throw_io e))"

text \<open>
  Modelled from the spec: \<open>toRequestBody\<close> and \<open>getContentType\<close> of \<open>./common\<close> are not
  among the sources. A URL becomes a \<open>SourcePath\<close>, a buffer is passed on and a stream is
  read. Content type detection is skipped for a URL (the result is \<open>undefined\<close>); for
  binary data the leading bytes are inspected, by the table that is a parameter.
\<close>

definition readBody :: "FormRecognizerRequestBody \<Rightarrow> thrown + bytes" where
  "readBody form = (case form of Buffer bs \<Rightarrow> Inr bs | ReadableStream r \<Rightarrow> r)"

definition toRequestBody :: "FormSource \<Rightarrow> RequestBody promise" where
  "toRequestBody body =
     (case body of
        UrlString url \<Rightarrow> return_io (SourcePath url)
      | Document form \<Rightarrow> bind_io (lift_io (readBody form)) (\<lambda>bs. return_io (Binary bs)))"

definition getContentType :: "Env \<Rightarrow> RequestBody \<Rightarrow> (FormContentType option) promise" where
  "getContentType env data =
     (case data of
        SourcePath _ \<Rightarrow> return_io None
      | Binary bs \<Rightarrow> lift_io (sniffContentType env bs))"

subsection \<open>The worker of layout analysis and the fetch of its result\<close>

text \<open>
  \<open>recognizeLayoutInternal\<close>, an \<open>async\<close> function that the poller awaits at once.
  The span is created first; the body is converted and the
  content type resolved before the \<open>try\<close> block, so a failure there leaves the span
  open. A given content type is used as it is (each of the four is a non-empty string);
  only without one is \<open>getContentType\<close> called. The last parameter (\<open>_modelId\<close>,
  here \<open>unusedModelId\<close>) is not used. The options are assumed to have no property
  \<open>fileStream\<close>, which the spread in the JSON call would let override the body.
\<close>

definition recognizeLayoutInternal ::
  "Env \<Rightarrow> GeneratedClient \<Rightarrow> FormSource \<Rightarrow> FormContentType option \<Rightarrow> Options option
     \<Rightarrow> js_string option \<Rightarrow> RemoteOperation promise" where
  "recognizeLayoutInternal env c body contentType' options unusedModelId =
     (let realOptions = (case options of None \<Rightarrow> emptyOptions | Some opts \<Rightarrow> opts)
      in bind_io (createSpan env ''analyzeLayoutInternal'' realOptions) (\<lambda>(span, finalOptions).
         bind_io (await (toRequestBody body)) (\<lambda>requestBody.
         bind_io (case contentType' of
                    Some ct \<Rightarrow> return_io (Some ct)
                  | None \<Rightarrow> await (getContentType env requestBody)) (\<lambda>requestContentType.
         try_catch_finally
           (case requestContentType of
              Some ct \<Rightarrow>
                bind_io (analyzeLayoutAsync env c (Some (contentTypeName ct)) requestBody
                           (operationOptionsToRequestOptionsBase env finalOptions)) await
            | None \<Rightarrow>
                bind_io (analyzeLayoutAsync env c (Some ''application/json'') requestBody
                           (operationOptionsToRequestOptionsBase env finalOptions)) await)
           (setStatusAndRethrow span)
           (span_end span)))))"

text \<open>
  \<open>FormRecognizerClient.getRecognizedContent\<close>, awaited at once by the poller as well.
  The call of the generated client and the transform are both inside the \<open>try\<close> block.
\<close>

definition getRecognizedContent ::
  "Env \<Rightarrow> FormRecognizerClient \<Rightarrow> js_string \<Rightarrow> Options option
     \<Rightarrow> RecognizeContentResultResponse promise" where
  "getRecognizedContent env this resultId options =
     (let realOptions = (case options of None \<Rightarrow> emptyOptions | Some opts \<Rightarrow> opts)
      in bind_io (createSpan env ''FormRecognizerClient-getRecognizedLayoutResult'' realOptions)
           (\<lambda>(span, finalOptions).
         try_catch_finally
           (let requestOptions = operationOptionsToRequestOptionsBase env finalOptions
            in bind_io
                 (bind_io (getAnalyzeLayoutResult env (client this) resultId requestOptions) await)
                 (\<lambda>analyzeResult.
                    lift_failure (toRecognizeContentResultResponse env analyzeResult)))
           (setStatusAndRethrow span)
           (span_end span)))"

subsection \<open>The spanner\<close>

text \<open>
  \<open>makeSpanner(prefix, options).span(name, handler)\<close>: the function that, called with
  \<open>args\<close>, creates the span \<open>prefix-name\<close>, calls the handler with the updated options
  put before \<open>args\<close> and returns what the handler returns. The call is not awaited:
  the \<open>catch\<close> block sees what the handler throws before it returns, and the span is
  ended when the handler has returned. The \<open>finally\<close> block ends the span also when
  the \<open>catch\<close> block throws.
\<close>

definition makeSpanner_span ::
  "Env \<Rightarrow> js_string \<Rightarrow> Options \<Rightarrow> js_string \<Rightarrow> (Options \<Rightarrow> 'args \<Rightarrow> 'r io) \<Rightarrow> 'args \<Rightarrow> 'r io"
  where
  "makeSpanner_span env prefix options name handler args =
     bind_io (createSpan env (prefix @ ''-'' @ name) options) (\<lambda>(span, updatedOptions).
       try_catch_finally
         (handler updatedOptions args)
         (setStatusAndRethrow span)
         (span_end span))"

subsection \<open>The handlers given to the spanner\<close>

text \<open>
  Each handler is an \<open>async\<close> arrow function of a \<open>begin...\<close> method; it is named
  after its span. The handlers that start an analysis take no argument after the
  options. A handler for a document awaits \<open>toRequestBody\<close> first, so all it does
  comes after its return. A handler for a URL has the call of the generated client
  before its first \<open>await\<close>, and a handler that fetches a result returns what that
  call returns, without any \<open>await\<close>: the request is sent when the handler is called,
  inside the span, and the answer is awaited after the return. In a method for a document, \<open>finalOptions.contentType ?? ...\<close> calls
  \<open>getContentType\<close> only when the option is \<open>undefined\<close>, and the result, which may
  be \<open>undefined\<close>, is the content type argument. In a method for a URL the content type
  is the literal \<open>application/json\<close> and the body is \<open>{ source: url }\<close>.
\<close>

definition customFormsInternal ::
  "Env \<Rightarrow> FormRecognizerClient \<Rightarrow> js_string \<Rightarrow> FormRecognizerRequestBody \<Rightarrow> Options \<Rightarrow> unit
     \<Rightarrow> (js_string promise) io" where
  "customFormsInternal env this modelId form finalOptions _ =
     async
       (bind_io (await (toRequestBody (Document form))) (\<lambda>requestBody.
        bind_io (case contentType finalOptions of
                   Some ct \<Rightarrow> return_io (Some ct)
                 | None \<Rightarrow> await (getContentType env requestBody)) (\<lambda>contentType'.
        bind_io (bind_io (analyzeWithCustomModel env (client this) modelId
                            (map_option contentTypeName contentType') requestBody
                            (operationOptionsToRequestOptionsBase env finalOptions)) await)
          (\<lambda>remoteOperation. lift_io (processOperationLocation remoteOperation)))))"

definition customFormsInternalFromUrl ::
  "Env \<Rightarrow> FormRecognizerClient \<Rightarrow> js_string \<Rightarrow> js_string \<Rightarrow> Options \<Rightarrow> unit
     \<Rightarrow> (js_string promise) io" where
  "customFormsInternalFromUrl env this modelId formUrl finalOptions _ =
     bind_io (analyzeWithCustomModel env (client this) modelId
                (Some ''application/json'') (SourcePath formUrl)
                (operationOptionsToRequestOptionsBase env finalOptions))
       (\<lambda>pending. async
          (bind_io (await pending)
             (\<lambda>remoteOperation. lift_io (processOperationLocation remoteOperation))))"

text \<open>
  \<open>getCustomForms\<close>: the third parameter of the arrow function is named \<open>modelId\<close> as
  well and hides the \<open>modelId\<close> of the enclosing method, here \<open>enclosingModelId\<close>.
\<close>

definition getCustomForms ::
  "Env \<Rightarrow> FormRecognizerClient \<Rightarrow> js_string \<Rightarrow> Options \<Rightarrow> js_string \<times> js_string option
     \<Rightarrow> (AnalyzeOperationResult promise) io" where
  "getCustomForms env this enclosingModelId finalOptions args =
     (case args of (resultId, modelId) \<Rightarrow>
        bind_io (getAnalyzeFormResult env (client this) modelId resultId
                   (operationOptionsToRequestOptionsBase env finalOptions))
          (\<lambda>pending. async (await pending)))"


definition businessCardsInternalFromUrl ::
  "Env \<Rightarrow> FormRecognizerClient \<Rightarrow> js_string \<Rightarrow> Options \<Rightarrow> unit \<Rightarrow> (js_string promise) io" where
  "businessCardsInternalFromUrl env this businessCardUrl finalOptions _ =
     bind_io (analyzeBusinessCardAsync env (client this)
                (Some ''application/json'') (SourcePath businessCardUrl)
                (operationOptionsToRequestOptionsBase env finalOptions))
       (\<lambda>pending. async
          (bind_io (await pending)
             (\<lambda>remoteOperation. lift_io (processOperationLocation remoteOperation))))"

definition getBusinessCards ::
  "Env \<Rightarrow> FormRecognizerClient \<Rightarrow> Options \<Rightarrow> js_string \<times> js_string option
     \<Rightarrow> (AnalyzeOperationResult promise) io" where
  "getBusinessCards env this finalOptions args =
     (case args of (resultId, _) \<Rightarrow>
        bind_io (getAnalyzeBusinessCardResult env (client this) resultId
                   (operationOptionsToRequestOptionsBase env finalOptions))
          (\<lambda>pending. async (await pending)))"


definition receiptsInternalFromUrl ::
  "Env \<Rightarrow> FormRecognizerClient \<Rightarrow> js_string \<Rightarrow> Options \<Rightarrow> unit \<Rightarrow> (js_string promise) io" where
  "receiptsInternalFromUrl env this receiptUrl finalOptions _ =
     bind_io (analyzeReceiptAsync env (client this)
                (Some ''application/json'') (SourcePath receiptUrl)
                (operationOptionsToRequestOptionsBase env finalOptions))
       (\<lambda>pending. async
          (bind_io (await pending)
             (\<lambda>remoteOperation. lift_io (processOperationLocation remoteOperation))))"

definition getReceipts ::
  "Env \<Rightarrow> FormRecognizerClient \<Rightarrow> Options \<Rightarrow> js_string \<times> js_string option
     \<Rightarrow> (AnalyzeOperationResult promise) io" where
  "getReceipts env this finalOptions args =
     (case args of (resultId, _) \<Rightarrow>
        bind_io (getAnalyzeReceiptResult env (client this) resultId
                   (operationOptionsToRequestOptionsBase env finalOptions))
          (\<lambda>pending. async (await pending)))"

section \<open>The pollers\<close>

text \<open>
  Modelled from the spec: the classes \<open>FormRecognitionPoller\<close> and
  \<open>BeginRecognizeContentPoller\<close> of \<open>./lro/analyze\<close> and the poller of the
  long-running-operation library they extend are not among the sources. The state of a
  poller holds its status, the operation handle, the latest raw result (none until the
  first fetch) and the two flags. A poller also holds the secondary identifier it was
  constructed with, the two operations and the progress callback of its options.
\<close>

record 'r PollState =
  pstatus :: PollStatus
  handle :: "js_string option"
  rawResult :: "'r option"
  isCompleted :: bool
  isCancelled :: bool

record 'r Poller =
  pollState :: "'r PollState"
  secondaryId :: "js_string option"
  expectedDocType :: "js_string option"
  createOperation :: "unit \<Rightarrow> (js_string promise) io"
  getResult :: "js_string \<times> js_string option \<Rightarrow> ('r promise) io"
  progressCallback :: "(PollStatus \<Rightarrow> thrown option) option"
  intervalInMs :: "nat option"

text \<open>
  Modelled from the spec: construction is fresh (status \<open>NotStarted\<close>, no handle; the
  operation is started by the first \<open>poll\<close>), or, with \<open>resumeFrom\<close>, resumed from a
  serialized state: the persisted status and handle are taken and nothing is started.
\<close>

definition new_FormRecognitionPoller ::
  "Env \<Rightarrow> js_string option \<Rightarrow> js_string option \<Rightarrow> (unit \<Rightarrow> (js_string promise) io)
     \<Rightarrow> (js_string \<times> js_string option \<Rightarrow> ('r promise) io) \<Rightarrow> Options \<Rightarrow> thrown + 'r Poller"
  where
  "new_FormRecognitionPoller env modelId docType create get options =
     (case resumeFrom options of
        None \<Rightarrow>
          Inr \<lparr>pollState =
                 \<lparr>pstatus = NotStarted, handle = None, rawResult = None,
                  isCompleted = False, isCancelled = False\<rparr>,
               secondaryId = modelId, expectedDocType = docType,
               createOperation = create, getResult = get,
               progressCallback = onProgress options,
               intervalInMs = updateIntervalInMs options\<rparr>
      | Some serialized \<Rightarrow>
          (case parseSerializedState env serialized of
             Inl e \<Rightarrow> Inl e
           | Inr saved \<Rightarrow>
               Inr \<lparr>pollState =
                      \<lparr>pstatus = lastKnownStatus saved, handle = Some (serializedHandle saved),
                       rawResult = None, isCompleted = isTerminal (lastKnownStatus saved),
                       isCancelled = (lastKnownStatus saved = Canceled)\<rparr>,
                    secondaryId = modelId, expectedDocType = docType,
                    createOperation = create, getResult = get,
                    progressCallback = onProgress options,
                    intervalInMs = updateIntervalInMs options\<rparr>))"

text \<open>
  The type \<open>RecognizeContentPollerClient\<close>, as \<open>beginRecognizeContent\<close> fills it in.
\<close>

record RecognizeContentPollerClient =
  beginRecognize ::
    "FormSource \<Rightarrow> FormContentType option \<Rightarrow> Options option \<Rightarrow> js_string option
       \<Rightarrow> RemoteOperation promise"
  getRecognizeResult ::
    "js_string \<Rightarrow> Options option \<Rightarrow> RecognizeContentResultResponse promise"

text \<open>
  Modelled from the spec: the content poller starts its operation by
  \<open>initiate(source, contentType, options)\<close>, keeps what follows the last separator of
  the operation location as the handle, and fetches by \<open>fetch(handle)\<close>.
\<close>

definition new_BeginRecognizeContentPoller ::
  "Env \<Rightarrow> RecognizeContentPollerClient \<Rightarrow> FormSource \<Rightarrow> Options
     \<Rightarrow> thrown + RecognizeContentResultResponse Poller" where
  "new_BeginRecognizeContentPoller env pollerClient source options =
     new_FormRecognitionPoller env None None
       (\<lambda>_. async
          (bind_io (await (beginRecognize pollerClient source (contentType options)
                             (Some options) None))
             (\<lambda>remoteOperation. lift_io (processOperationLocation remoteOperation))))
       (\<lambda>args. case args of (resultId, _) \<Rightarrow>
          async (getRecognizeResult pollerClient resultId None))
       options"

text \<open>
  Modelled from the spec: the progress notification channel. With a callback, the
  notification is logged and the callback is run; what it throws is thrown on.
\<close>

definition notify :: "(PollStatus \<Rightarrow> thrown option) option \<Rightarrow> PollStatus \<Rightarrow> unit io" where
  "notify callback s =
     (case callback of
        None \<Rightarrow> return_io ()
      | Some f \<Rightarrow>
          bind_io (emit (ProgressFired s))
            (\<lambda>_. case f s of None \<Rightarrow> return_io () | Some e \<Rightarrow> throw_io e))"

text \<open>
  Modelled from the spec: \<open>poll()\<close> performs at most one fetch-and-update cycle. On a
  terminal poller it does nothing. Otherwise a poller without a handle starts its
  operation first (once: the handle is kept even if the fetch fails); then the result is
  fetched with the poller's secondary identifier, the status becomes the one the service
  reports, and on a change of status the progress channel is notified, except when an
  operation is found terminal by the very first status check. The poller is returned with
  the outcome, since \<open>poll\<close> updates it in place also when it throws.
\<close>

definition poll ::
  "('a OperationStatusResponse_scheme) Poller \<Rightarrow> world
     \<Rightarrow> (thrown + unit) \<times> ('a OperationStatusResponse_scheme) Poller \<times> world" where
  "poll p w =
     (let st = pollState p
      in if isTerminal (pstatus st) then (Inr (), p, w)
         else
           (case (case handle st of
                    Some h \<Rightarrow> return_io h w
                  | None \<Rightarrow> bind_io (createOperation p ()) await w) of
              (Inl e, w1) \<Rightarrow> (Inl e, p, w1)
            | (Inr h, w1) \<Rightarrow>
                (let p1 = p\<lparr>pollState := st\<lparr>handle := Some h\<rparr>\<rparr>
                 in case bind_io (getResult p1 (h, secondaryId p1)) await w1 of
                      (Inl e, w2) \<Rightarrow> (Inl e, p1, w2)
                    | (Inr r, w2) \<Rightarrow>
                        (let s = fromOperationStatus (status r);
                             firstCheck = (case rawResult st of None \<Rightarrow> True | Some _ \<Rightarrow> False);
                             p2 = p1\<lparr>pollState :=
                                      (pollState p1)\<lparr>pstatus := s, rawResult := Some r,
                                                     isCompleted := isTerminal s\<rparr>\<rparr>
                         in if s \<noteq> pstatus st \<and> \<not> (firstCheck \<and> isTerminal s)
                            then (case notify (progressCallback p2) s w2 of
                                    (out, w3) \<Rightarrow> (out, p2, w3))
                            else (Inr (), p2, w2)))))"

text \<open>\<open>await poller.poll(); return poller;\<close>, the end of every \<open>begin...\<close> method.\<close>

definition pollAndReturn ::
  "('a OperationStatusResponse_scheme) Poller
     \<Rightarrow> (('a OperationStatusResponse_scheme) Poller) io" where
  "pollAndReturn poller w =
     (case poll poller w of
        (Inl e, _, w') \<Rightarrow> (Inl e, w')
      | (Inr _, poller', w') \<Rightarrow> (Inr poller', w'))"

section \<open>The methods that begin an operation\<close>

text \<open>
  Each method takes its optional \<open>options\<close> argument as an option (\<open>None\<close>: the
  default of the parameter is used), builds a poller, polls it once and returns it.
\<close>

definition beginRecognizeContent ::
  "Env \<Rightarrow> FormRecognizerClient \<Rightarrow> FormRecognizerRequestBody \<Rightarrow> Options option
     \<Rightarrow> (RecognizeContentResultResponse Poller) io" where
  "beginRecognizeContent env this form optionsArg =
     (let options = (case optionsArg of None \<Rightarrow> emptyOptions | Some opts \<Rightarrow> opts);
          pollerClient =
            \<lparr>beginRecognize = recognizeLayoutInternal env (client this),
             getRecognizeResult = getRecognizedContent env this\<rparr>
      in bind_io
           (lift_io (new_BeginRecognizeContentPoller env pollerClient (Document form) options))
           pollAndReturn)"


text \<open>
  The two methods for a custom model throw a \<open>RangeError\<close> first when the model id is
  empty. Neither the method for a document nor the one for a URL changes the content
  type among the options given to the spanner; the one for a URL writes no warning.
\<close>

definition beginRecognizeCustomForms ::
  "Env \<Rightarrow> FormRecognizerClient \<Rightarrow> js_string \<Rightarrow> FormRecognizerRequestBody \<Rightarrow> Options option
     \<Rightarrow> (AnalyzeOperationResult Poller) io" where
  "beginRecognizeCustomForms env this modelId form optionsArg =
     (let options = (case optionsArg of None \<Rightarrow> emptyOptions | Some opts \<Rightarrow> opts)
      in if modelId = [] then throw_io (new_RangeError ''Invalid model id'')
         else
           (let spannerOptions =
                  options\<lparr>includeTextDetails := includeFieldElements options\<rparr>
            in bind_io
                 (lift_io
                    (new_FormRecognitionPoller env (Some modelId) None
                       (makeSpanner_span env ''FormRecognizerClient-beginRecognizeCustomForms''
                          spannerOptions ''customFormsInternal''
                          (customFormsInternal env this modelId form))
                       (makeSpanner_span env ''FormRecognizerClient-beginRecognizeCustomForms''
                          spannerOptions ''getCustomForms''
                          (getCustomForms env this modelId))
                       options))
                 pollAndReturn))"

definition beginRecognizeCustomFormsFromUrl ::
  "Env \<Rightarrow> FormRecognizerClient \<Rightarrow> js_string \<Rightarrow> js_string \<Rightarrow> Options option
     \<Rightarrow> (AnalyzeOperationResult Poller) io" where
  "beginRecognizeCustomFormsFromUrl env this modelId formUrl optionsArg =
     (let options = (case optionsArg of None \<Rightarrow> emptyOptions | Some opts \<Rightarrow> opts)
      in if modelId = [] then throw_io (new_RangeError ''Invalid model id'')
         else
           (let spannerOptions =
                  options\<lparr>includeTextDetails := includeFieldElements options\<rparr>
            in bind_io
                 (lift_io
                    (new_FormRecognitionPoller env (Some modelId) None
                       (makeSpanner_span env ''FormRecognizerClient-beginRecognizeCustomForms''
                          spannerOptions ''customFormsInternal''
                          (customFormsInternalFromUrl env this modelId formUrl))
                       (makeSpanner_span env ''FormRecognizerClient-beginRecognizeCustomForms''
                          spannerOptions ''getCustomForms''
                          (getCustomForms env this modelId))
                       options))
                 pollAndReturn))"




definition beginRecognizeReceiptsFromUrl ::
  "Env \<Rightarrow> FormRecognizerClient \<Rightarrow> js_string \<Rightarrow> Options option
     \<Rightarrow> (AnalyzeOperationResult Poller) io" where
  "beginRecognizeReceiptsFromUrl env this receiptUrl optionsArg =
     (let options = (case optionsArg of None \<Rightarrow> emptyOptions | Some opts \<Rightarrow> opts)
      in bind_io
           (if contentType options \<noteq> None
            then emit (LoggerWarning
                        ''Ignoring 'contentType' parameter passed to URL-based method.'')
            else return_io ())
           (\<lambda>_.
              (let spannerOptions =
                     options\<lparr>contentType := None,
                                  includeTextDetails := includeFieldElements options\<rparr>
               in bind_io
                    (lift_io
                       (new_FormRecognitionPoller env None (Some ''prebuilt:receipt'')
                          (makeSpanner_span env ''FormRecognizerClient-beginRecognizeReceiptsFromUrl''
                             spannerOptions ''receiptsInternal''
                             (receiptsInternalFromUrl env this receiptUrl))
                          (makeSpanner_span env ''FormRecognizerClient-beginRecognizeReceiptsFromUrl''
                             spannerOptions ''getReceipts''
                             (getReceipts env this))
                          options))
                    pollAndReturn)))"

section \<open>An example environment\<close>

text \<open>
  A service that answers every request that starts an analysis with the given operation
  location and every fetch with the given status, a content type table that knows the
  magic number of PDF, and a client for it. The theorems below hold for every
  environment; this one serves to run the client on concrete inputs.
\<close>

definition exampleEnv :: "js_string option \<Rightarrow> OperationStatus \<Rightarrow> Env" where
  "exampleEnv location st =
     \<lparr>SDK_VERSION = ''3.0.0'',
      DEFAULT_COGNITIVE_SCOPE = ''https://cognitiveservices.azure.com/.default'',
      FormRecognizerLoggingAllowedHeaderNames = [],
      FormRecognizerLoggingAllowedQueryParameters = [],
      startAnalysis = (\<lambda>c w r. Inr \<lparr>operationLocation = location\<rparr>),
      fetchResult = (\<lambda>c w r. Inr \<lparr>status = st, analyzeResult = None\<rparr>),
      sniffContentType =
        (\<lambda>bs. if take 4 bs = [0x25, 0x50, 0x44, 0x46] then Inr (Some ApplicationPdf)
              else Inl (new_RangeError ''content type could not be detected'')),
      operationOptionsToRequestOptionsBase = (\<lambda>options. []),
      spanOptionsFor = (\<lambda>name parent. Some name),
      toRecognizeContentResultResponse = (\<lambda>r. Inr \<lparr>status = status r, pages = []\<rparr>),
      parseSerializedState = (\<lambda>serialized. Inl (new_Error ''not a serialized poller''))\<rparr>"

definition exampleClient :: FormRecognizerClient where
  "exampleClient =
     new_FormRecognizerClient (exampleEnv None notStarted) ''https://example.test''
       (KeyCredential ''key'') None"

definition pdfBytes :: bytes where
  "pdfBytes = [0x25, 0x50, 0x44, 0x46, 0x2D]"

definition examplePoller :: "AnalyzeOperationResult Poller" where
  "examplePoller =
     \<lparr>pollState =
        \<lparr>pstatus = NotStarted, handle = None, rawResult = None,
         isCompleted = False, isCancelled = False\<rparr>,
      secondaryId = None, expectedDocType = Some ''prebuilt:receipt'',
      createOperation =
        makeSpanner_span (exampleEnv (Some ''https://example.test/operations/abc123'') succeeded)
          ''FormRecognizerClient-beginRecognizeReceipts'' emptyOptions ''receiptsInternal''
          (receiptsInternalFromUrl
             (exampleEnv (Some ''https://example.test/operations/abc123'') succeeded)
             exampleClient ''https://example.test/receipt.png''),
      getResult =
        makeSpanner_span (exampleEnv (Some ''https://example.test/operations/abc123'') succeeded)
          ''FormRecognizerClient-beginRecognizeReceipts'' emptyOptions ''getReceipts''
          (getReceipts (exampleEnv (Some ''https://example.test/operations/abc123'') succeeded)
             exampleClient),
      progressCallback = Some (\<lambda>s. None),
      intervalInMs = None\<rparr>"



section \<open>Properties of the string operations\<close>

lemma lastIndexOf_absent: "c \<notin> set xs \<Longrightarrow> lastIndexOf xs c = - 1"
  by (induction xs) (auto simp: Let_def)



lemma substring_zero: "substring s 0 = s"
  by (simp add: substring_def)

section \<open>Running the computations\<close>

lemmas io_defs = return_io_def throw_io_def bind_io_def lift_io_def lift_failure_def emit_def
  try_catch_finally_def async_def await_def

lemmas client_defs = sendStart_def sendFetch_def analyzeLayoutAsync_def analyzeWithCustomModel_def
  analyzeBusinessCardAsync_def analyzeReceiptAsync_def getAnalyzeLayoutResult_def
  getAnalyzeFormResult_def getAnalyzeBusinessCardResult_def getAnalyzeReceiptResult_def

lemma requests_append: "requests (w @ w') = requests w @ requests w'"
  by (simp add: requests_def)

lemma requests_simps:
  "requests [] = []"
  "requests (Sent r # w) = r # requests w"
  "requests (SpanStart n # w) = requests w"
  "requests (SpanEnd n # w) = requests w"
  "requests (SpanSetStatus n c sm # w) = requests w"
  "requests (LoggerWarning m # w) = requests w"
  "requests (ProgressFired s # w) = requests w"
  by (simp_all add: requests_def)

lemma progressEvents_append: "progressEvents (w @ w') = progressEvents w @ progressEvents w'"
  by (simp add: progressEvents_def)

lemma progressEvents_simps:
  "progressEvents [] = []"
  "progressEvents (Sent r # w) = progressEvents w"
  "progressEvents (SpanStart n # w) = progressEvents w"
  "progressEvents (SpanEnd n # w) = progressEvents w"
  "progressEvents (SpanSetStatus n c sm # w) = progressEvents w"
  "progressEvents (LoggerWarning m # w) = progressEvents w"
  "progressEvents (ProgressFired s # w) = s # progressEvents w"
  by (simp_all add: progressEvents_def)

lemma span_async:
  "(\<And>finalOptions a. handler finalOptions a = async (body finalOptions a)) \<Longrightarrow>
   makeSpanner_span env prefix so name handler args w =
     (Inr (body (optionsInSpan env (prefix @ ''-'' @ name) so) args),
      w @ [SpanStart (prefix @ ''-'' @ name), SpanEnd (prefix @ ''-'' @ name)])"
  by (simp add: makeSpanner_span_def createSpan_def span_end_def io_defs)

lemma customFormsInternal_run:
  "bind_io (makeSpanner_span env prefix so name (customFormsInternal env this modelId form) ()) await w =
     (let n = prefix @ ''-'' @ name;
          w1 = w @ [SpanStart n, SpanEnd n]
      in case readBody form of
           Inl e \<Rightarrow> (Inl e, w1)
         | Inr bs \<Rightarrow>
             (case (case contentType so of
                      Some ct \<Rightarrow> Inr (Some ct)
                    | None \<Rightarrow> sniffContentType env bs) of
                Inl e \<Rightarrow> (Inl e, w1)
              | Inr ct \<Rightarrow>
                  (let req = AnalyzeWithCustomModel modelId (map_option contentTypeName ct) (Binary bs)
                               (operationOptionsToRequestOptionsBase env (optionsInSpan env n so))
                   in (case startAnalysis env (client this) w1 req of
                         Inl e \<Rightarrow> Inl (Thrown e)
                       | Inr ro \<Rightarrow> processOperationLocation ro, w1 @ [Sent req]))))"
  by (simp add: span_async [OF customFormsInternal_def] io_defs client_defs Let_def toRequestBody_def
      getContentType_def optionsInSpan_def split: sum.splits option.splits)





lemma receiptsInternalFromUrl_run:
  "bind_io (makeSpanner_span env prefix so name (receiptsInternalFromUrl env this receiptUrl) ()) await w =
     (let n = prefix @ ''-'' @ name;
          w1 = w @ [SpanStart n];
          req = AnalyzeReceiptAsync (Some ''application/json'') (SourcePath receiptUrl)
                  (operationOptionsToRequestOptionsBase env (optionsInSpan env n so))
      in (case startAnalysis env (client this) w1 req of
            Inl e \<Rightarrow> Inl (Thrown e)
          | Inr ro \<Rightarrow> processOperationLocation ro, w1 @ [Sent req, SpanEnd n]))"
  by (simp add: makeSpanner_span_def createSpan_def span_end_def receiptsInternalFromUrl_def io_defs
      client_defs Let_def split: sum.splits)

lemma getCustomForms_run:
  "bind_io (makeSpanner_span env prefix so name (getCustomForms env this enclosingModelId) (resultId, modelId)) await w =
     (let n = prefix @ ''-'' @ name;
          w1 = w @ [SpanStart n];
          req = GetAnalyzeFormResult modelId resultId
                  (operationOptionsToRequestOptionsBase env (optionsInSpan env n so))
      in (map_sum Thrown id (fetchResult env (client this) w1 req), w1 @ [Sent req, SpanEnd n]))"
  by (simp add: makeSpanner_span_def createSpan_def span_end_def getCustomForms_def io_defs client_defs
      Let_def)


lemma getReceipts_run:
  "bind_io (makeSpanner_span env prefix so name (getReceipts env this) (resultId, modelId)) await w =
     (let n = prefix @ ''-'' @ name;
          w1 = w @ [SpanStart n];
          req = GetAnalyzeReceiptResult resultId
                  (operationOptionsToRequestOptionsBase env (optionsInSpan env n so))
      in (map_sum Thrown id (fetchResult env (client this) w1 req), w1 @ [Sent req, SpanEnd n]))"
  by (simp add: makeSpanner_span_def createSpan_def span_end_def getReceipts_def io_defs client_defs
      Let_def)


lemma recognizeLayoutInternal_run:
  "recognizeLayoutInternal env c body contentType' options unusedModelId w =
     (let n = ''analyzeLayoutInternal'';
          finalOptions =
            optionsInSpan env n (case options of None \<Rightarrow> emptyOptions | Some opts \<Rightarrow> opts);
          w1 = w @ [SpanStart n]
      in case (case body of UrlString url \<Rightarrow> Inr (SourcePath url)
                          | Document form \<Rightarrow> map_sum id Binary (readBody form)) of
           Inl e \<Rightarrow> (Inl e, w1)
         | Inr requestBody \<Rightarrow>
             (case (case contentType' of
                      Some ct \<Rightarrow> Inr (Some ct)
                    | None \<Rightarrow>
                        (case requestBody of
                           SourcePath url \<Rightarrow> Inr None
                         | Binary bs \<Rightarrow> sniffContentType env bs)) of
                Inl e \<Rightarrow> (Inl e, w1)
              | Inr requestContentType \<Rightarrow>
                  (let req = AnalyzeLayoutAsync
                               (Some (case requestContentType of
                                        Some ct \<Rightarrow> contentTypeName ct
                                      | None \<Rightarrow> ''application/json''))
                               requestBody
                               (operationOptionsToRequestOptionsBase env finalOptions)
                   in (case startAnalysis env c w1 req of
                         Inl e \<Rightarrow>
                           (Inl (Thrown e),
                            w1 @ [Sent req, SpanSetStatus n UNKNOWN (Some (message e)), SpanEnd n])
                       | Inr ro \<Rightarrow> (Inr ro, w1 @ [Sent req, SpanEnd n])))))"
  by (simp add: recognizeLayoutInternal_def createSpan_def span_end_def span_setStatus_def setStatusAndRethrow_def
      io_defs client_defs Let_def toRequestBody_def getContentType_def
      split: sum.splits option.splits FormSource.splits RequestBody.splits)

lemma getRecognizedContent_run:
  "getRecognizedContent env this resultId options w =
     (let n = ''FormRecognizerClient-getRecognizedLayoutResult'';
          finalOptions =
            optionsInSpan env n (case options of None \<Rightarrow> emptyOptions | Some opts \<Rightarrow> opts);
          w1 = w @ [SpanStart n];
          req = GetAnalyzeLayoutResult resultId
                  (operationOptionsToRequestOptionsBase env finalOptions)
      in case (case fetchResult env (client this) w1 req of
                 Inl e \<Rightarrow> Inl e
               | Inr res \<Rightarrow> toRecognizeContentResultResponse env res) of
           Inl e \<Rightarrow>
             (Inl (Thrown e),
              w1 @ [Sent req, SpanSetStatus n UNKNOWN (Some (message e)), SpanEnd n])
         | Inr v \<Rightarrow> (Inr v, w1 @ [Sent req, SpanEnd n]))"
  by (simp add: getRecognizedContent_def createSpan_def span_end_def span_setStatus_def setStatusAndRethrow_def
      io_defs client_defs Let_def split: sum.splits option.splits)

section \<open>Properties of the poller\<close>

lemma poll_terminal:
  "isTerminal (pstatus (pollState p)) \<Longrightarrow> poll p w = (Inr (), p, w)"
  by (simp add: poll_def)





lemma poll_getResult: "getResult (fst (snd (poll p w))) = getResult p"
  by (simp add: poll_def Let_def split: prod.splits sum.splits option.splits)


lemma pollAndReturn_getResult:
  "pollAndReturn p w = (Inr p', w') \<Longrightarrow> getResult p' = getResult p"
  using poll_getResult [of p w] by (auto simp: pollAndReturn_def split: prod.splits sum.splits)

lemma new_FormRecognitionPoller_fresh:
  "resumeFrom options = None \<Longrightarrow>
   new_FormRecognitionPoller env modelId docType create get options =
     Inr \<lparr>pollState =
            \<lparr>pstatus = NotStarted, handle = None, rawResult = None,
             isCompleted = False, isCancelled = False\<rparr>,
          secondaryId = modelId, expectedDocType = docType,
          createOperation = create, getResult = get,
          progressCallback = onProgress options,
          intervalInMs = updateIntervalInMs options\<rparr>"
  by (simp add: new_FormRecognitionPoller_def)

lemma new_FormRecognitionPoller_getResult:
  "new_FormRecognitionPoller env modelId docType create get options = Inr p \<Longrightarrow>
   getResult p = get"
  by (auto simp: new_FormRecognitionPoller_def split: option.splits sum.splits)







lemma getRecognizedContent_extends:
  "\<exists>rest. snd (bind_io (case a of (resultId, u) \<Rightarrow>
                           async (getRecognizedContent env this resultId None)) await w)
             = w @ rest"
  by (cases a) (simp add: getRecognizedContent_run Let_def io_defs split: sum.splits)

lemma fetches_append: "fetches (w @ w') = fetches w @ fetches w'"
  by (simp add: fetches_def requests_append)



















section \<open>What does not depend on the content type table\<close>

lemmas client_call_defs = analyzeLayoutAsync_def analyzeWithCustomModel_def
  analyzeBusinessCardAsync_def analyzeReceiptAsync_def getAnalyzeLayoutResult_def
  getAnalyzeFormResult_def getAnalyzeBusinessCardResult_def getAnalyzeReceiptResult_def

lemma optionsInSpan_sniff [simp]:
  "optionsInSpan (env\<lparr>sniffContentType := sniff\<rparr>) = optionsInSpan env"
  by (intro ext) (simp add: optionsInSpan_def)

lemma sendStart_sniff [simp]:
  "sendStart (env\<lparr>sniffContentType := sniff\<rparr>) = sendStart env"
  by (intro ext) (simp add: sendStart_def)

lemma sendFetch_sniff [simp]:
  "sendFetch (env\<lparr>sniffContentType := sniff\<rparr>) = sendFetch env"
  by (intro ext) (simp add: sendFetch_def)

lemma createSpan_sniff [simp]:
  "createSpan (env\<lparr>sniffContentType := sniff\<rparr>) = createSpan env"
  by (intro ext) (simp add: createSpan_def)


lemma new_FormRecognitionPoller_sniff [simp]:
  "new_FormRecognitionPoller (env\<lparr>sniffContentType := sniff\<rparr>) = new_FormRecognitionPoller env"
  by (intro ext) (simp add: new_FormRecognitionPoller_def split: option.splits sum.splits)

lemma customFormsInternalFromUrl_sniff [simp]:
  "customFormsInternalFromUrl (env\<lparr>sniffContentType := sniff\<rparr>) = customFormsInternalFromUrl env"
  by (intro ext) (simp add: customFormsInternalFromUrl_def client_call_defs optionsInSpan_def split: prod.splits)

lemma businessCardsInternalFromUrl_sniff [simp]:
  "businessCardsInternalFromUrl (env\<lparr>sniffContentType := sniff\<rparr>) = businessCardsInternalFromUrl env"
  by (intro ext) (simp add: businessCardsInternalFromUrl_def client_call_defs optionsInSpan_def split: prod.splits)

lemma receiptsInternalFromUrl_sniff [simp]:
  "receiptsInternalFromUrl (env\<lparr>sniffContentType := sniff\<rparr>) = receiptsInternalFromUrl env"
  by (intro ext) (simp add: receiptsInternalFromUrl_def client_call_defs optionsInSpan_def split: prod.splits)

lemma getCustomForms_sniff [simp]:
  "getCustomForms (env\<lparr>sniffContentType := sniff\<rparr>) = getCustomForms env"
  by (intro ext) (simp add: getCustomForms_def client_call_defs optionsInSpan_def split: prod.splits)

lemma getBusinessCards_sniff [simp]:
  "getBusinessCards (env\<lparr>sniffContentType := sniff\<rparr>) = getBusinessCards env"
  by (intro ext) (simp add: getBusinessCards_def client_call_defs optionsInSpan_def split: prod.splits)

lemma getReceipts_sniff [simp]:
  "getReceipts (env\<lparr>sniffContentType := sniff\<rparr>) = getReceipts env"
  by (intro ext) (simp add: getReceipts_def client_call_defs optionsInSpan_def split: prod.splits)

lemma getRecognizedContent_sniff [simp]:
  "getRecognizedContent (env\<lparr>sniffContentType := sniff\<rparr>) = getRecognizedContent env"
  by (intro ext) (simp add: getRecognizedContent_def client_call_defs optionsInSpan_def split: prod.splits)


lemma getContentType_SourcePath [simp]:
  "getContentType env (SourcePath url) = return_io None"
  by (simp add: getContentType_def)








section \<open>Example runs\<close>

text \<open>
  The client run on the example service, with the log it leaves: a receipt from a URL with
  a content type among the options, which is reported and not sent; a custom form whose
  PDF magic number is detected and whose operation is complete at the first status check;
  and content recognition against a service that gives no operation location.
\<close>

lemma bind_io_lift_Inr: "bind_io (lift_io (Inr x)) f w = f x w"
  by (simp add: bind_io_def lift_io_def)

lemmas example_defs = exampleEnv_def pdfBytes_def emptyOptions_def readBody_def
  processOperationLocation_def substring_def notify_def emit_def return_io_def throw_io_def
  optionsInSpan_def

lemma emit_then: "bind_io (emit ev) f w = f () (w @ [ev])"
  by (simp add: bind_io_def emit_def)

lemma example_receipt_from_url:
  "snd (beginRecognizeReceiptsFromUrl
          (exampleEnv (Some ''https://example.test/operations/abc123'') running)
          exampleClient ''https://example.test/receipt.png''
          (Some (emptyOptions\<lparr>contentType := Some ImagePng, onProgress := Some (\<lambda>s. None)\<rparr>)) [])
     = [LoggerWarning ''Ignoring 'contentType' parameter passed to URL-based method.'',
        SpanStart ''FormRecognizerClient-beginRecognizeReceiptsFromUrl-receiptsInternal'',
        Sent (AnalyzeReceiptAsync (Some ''application/json'')
                (SourcePath ''https://example.test/receipt.png'') []),
        SpanEnd ''FormRecognizerClient-beginRecognizeReceiptsFromUrl-receiptsInternal'',
        SpanStart ''FormRecognizerClient-beginRecognizeReceiptsFromUrl-getReceipts'',
        Sent (GetAnalyzeReceiptResult ''abc123'' []),
        SpanEnd ''FormRecognizerClient-beginRecognizeReceiptsFromUrl-getReceipts'',
        ProgressFired Running]"
  by (simp add: beginRecognizeReceiptsFromUrl_def Let_def emit_then
      new_FormRecognitionPoller_fresh bind_io_lift_Inr pollAndReturn_def poll_def
      receiptsInternalFromUrl_run getReceipts_run example_defs)

lemma example_custom_form_sniffed:
  "requests (snd (beginRecognizeCustomForms
          (exampleEnv (Some ''https://example.test/operations/abc123'') succeeded)
          exampleClient ''model1'' (Buffer pdfBytes)
          (Some (emptyOptions\<lparr>onProgress := Some (\<lambda>s. None)\<rparr>)) []))
     = [AnalyzeWithCustomModel ''model1'' (Some ''application/pdf'') (Binary pdfBytes) [],
        GetAnalyzeFormResult (Some ''model1'') ''abc123'' []] \<and>
   progressEvents (snd (beginRecognizeCustomForms
          (exampleEnv (Some ''https://example.test/operations/abc123'') succeeded)
          exampleClient ''model1'' (Buffer pdfBytes)
          (Some (emptyOptions\<lparr>onProgress := Some (\<lambda>s. None)\<rparr>)) [])) = []"
  by (simp add: beginRecognizeCustomForms_def Let_def
      new_FormRecognitionPoller_fresh bind_io_lift_Inr pollAndReturn_def poll_def
      customFormsInternal_run getCustomForms_run example_defs requests_simps
      progressEvents_simps)

lemma example_content_no_location:
  "beginRecognizeContent (exampleEnv None running) exampleClient (Buffer pdfBytes) None []
     = (Inl noOperationLocation,
        [SpanStart ''analyzeLayoutInternal'',
         Sent (AnalyzeLayoutAsync (Some ''application/pdf'') (Binary pdfBytes) []),
         SpanEnd ''analyzeLayoutInternal''])"
  by (simp add: beginRecognizeContent_def new_BeginRecognizeContentPoller_def Let_def
      new_FormRecognitionPoller_fresh bind_io_lift_Inr pollAndReturn_def poll_def
      recognizeLayoutInternal_run io_defs example_defs)

lemma example_begin:
  "\<exists>poller. fst (beginRecognizeCustomForms
                   (exampleEnv (Some ''https://example.test/operations/abc123'') running)
                   exampleClient ''model1'' (Buffer pdfBytes) None []) = Inr poller"
  by (simp add: beginRecognizeCustomForms_def Let_def new_FormRecognitionPoller_fresh
      emptyOptions_def bind_io_lift_Inr pollAndReturn_def poll_def
      customFormsInternal_run getCustomForms_run readBody_def exampleEnv_def pdfBytes_def
      processOperationLocation_def substring_def notify_def emit_def return_io_def throw_io_def)

section \<open>The result id\<close>



text \<open>
  Claim C10. A non-empty operation location without any slash is not an error:
  \<open>lastIndexOf\<close> gives \<open>-1\<close>, \<open>substring(0)\<close> gives the whole string, and
  \<open>processOperationLocation\<close> returns the location itself as the result id.
\<close>

theorem processOperationLocation_without_slash:
  "loc \<noteq> [] \<Longrightarrow> CHR ''/'' \<notin> set loc \<Longrightarrow>
   lastIndexOf loc (CHR ''/'') = - 1 \<and>
   processOperationLocation \<lparr>operationLocation = Some loc\<rparr> = Inr loc"
  by (simp add: processOperationLocation_def lastIndexOf_absent substring_zero)

theorem processOperationLocation_without_slash_witness:
  "''abc123'' \<noteq> [] \<and> CHR ''/'' \<notin> set ''abc123'' \<and>
   lastIndexOf ''abc123'' (CHR ''/'') = - 1 \<and>
   processOperationLocation \<lparr>operationLocation = Some ''abc123''\<rparr> = Inr ''abc123''"
  using processOperationLocation_without_slash [of "''abc123''"] by simp

section \<open>The model id of a custom model\<close>

text \<open>
  Claim C2. Called with the empty string as the model id, \<open>beginRecognizeCustomForms\<close>
  and \<open>beginRecognizeCustomFormsFromUrl\<close> reject with the \<open>RangeError\<close> "Invalid model
  id" (the error the specification calls \<open>InvalidOperationError\<close>), whatever the
  document, the URL and the options are, and leave the log as it was: no request is
  handed to the generated client, and nothing else is done either.
\<close>

theorem beginRecognizeCustomForms_empty_modelId:
  "beginRecognizeCustomForms env this [] form optionsArg w
     = (Inl (new_RangeError ''Invalid model id''), w) \<and>
   beginRecognizeCustomFormsFromUrl env this [] formUrl optionsArg w
     = (Inl (new_RangeError ''Invalid model id''), w) \<and>
   requests (snd (beginRecognizeCustomForms env this [] form optionsArg w)) = requests w \<and>
   requests (snd (beginRecognizeCustomFormsFromUrl env this [] formUrl optionsArg w)) = requests w"
  by (simp add: beginRecognizeCustomForms_def beginRecognizeCustomFormsFromUrl_def throw_io_def)

section \<open>The content type of a request\<close>





section \<open>The model id of a result fetch\<close>

lemma beginRecognizeCustomForms_getResult:
  assumes "beginRecognizeCustomForms env this modelId form optionsArg w = (Inr poller, w')"
  shows "getResult poller =
           makeSpanner_span env ''FormRecognizerClient-beginRecognizeCustomForms''
             ((case optionsArg of None \<Rightarrow> emptyOptions | Some opts \<Rightarrow> opts)
                \<lparr>includeTextDetails :=
                   includeFieldElements
                     (case optionsArg of None \<Rightarrow> emptyOptions | Some opts \<Rightarrow> opts)\<rparr>)
             ''getCustomForms'' (getCustomForms env this modelId)"
  using assms
  by (auto simp: beginRecognizeCustomForms_def Let_def bind_io_def lift_io_def throw_io_def
      split: if_splits sum.splits
      dest!: new_FormRecognitionPoller_getResult pollAndReturn_getResult)

lemma beginRecognizeCustomFormsFromUrl_getResult:
  assumes "beginRecognizeCustomFormsFromUrl env this modelId formUrl optionsArg w = (Inr poller, w')"
  shows "getResult poller =
           makeSpanner_span env ''FormRecognizerClient-beginRecognizeCustomForms''
             ((case optionsArg of None \<Rightarrow> emptyOptions | Some opts \<Rightarrow> opts)
                \<lparr>includeTextDetails :=
                   includeFieldElements
                     (case optionsArg of None \<Rightarrow> emptyOptions | Some opts \<Rightarrow> opts)\<rparr>)
             ''getCustomForms'' (getCustomForms env this modelId)"
  using assms
  by (auto simp: beginRecognizeCustomFormsFromUrl_def Let_def bind_io_def lift_io_def throw_io_def
      split: if_splits sum.splits
      dest!: new_FormRecognitionPoller_getResult pollAndReturn_getResult)

text \<open>
  Claim C4. The function \<open>getResult\<close> of custom form recognition fetches with the model
  id it is called with: the request is \<open>getAnalyzeFormResult(modelId, resultId)\<close> for
  the \<open>modelId\<close> of the call, and the model id of the enclosing method does not occur in
  what the function does. This is so for the handler under any spanner, and for the
  \<open>getResult\<close> of the poller that \<open>beginRecognizeCustomForms\<close> or
  \<open>beginRecognizeCustomFormsFromUrl\<close> returns, fresh or resumed. The request is handed
  to the generated client inside the span, when the function is called; the outcome of
  awaiting what the function returns is the answer of the service, its failure thrown.
\<close>

theorem getCustomForms_uses_its_parameter:
  "bind_io (makeSpanner_span env prefix so name (getCustomForms env this enclosingModelId)
              (resultId, modelId)) await w
     = (let n = prefix @ ''-'' @ name;
            w1 = w @ [SpanStart n];
            req = GetAnalyzeFormResult modelId resultId
                    (operationOptionsToRequestOptionsBase env (optionsInSpan env n so))
        in (map_sum Thrown id (fetchResult env (client this) w1 req),
            w1 @ [Sent req, SpanEnd n])) \<and>
   (case fst (beginRecognizeCustomForms env this enclosingModelId form optionsArg w0) of
      Inl e \<Rightarrow> True
    | Inr poller \<Rightarrow>
        (\<exists>ro. requests (snd (bind_io (getResult poller (resultId, modelId)) await w))
                = requests w @ [GetAnalyzeFormResult modelId resultId ro])) \<and>
   (case fst (beginRecognizeCustomFormsFromUrl env this enclosingModelId formUrl optionsArg w0) of
      Inl e \<Rightarrow> True
    | Inr poller \<Rightarrow>
        (\<exists>ro. requests (snd (bind_io (getResult poller (resultId, modelId)) await w))
                = requests w @ [GetAnalyzeFormResult modelId resultId ro]))"
proof (intro conjI)
  show "bind_io (makeSpanner_span env prefix so name (getCustomForms env this enclosingModelId)
              (resultId, modelId)) await w
     = (let n = prefix @ ''-'' @ name;
            w1 = w @ [SpanStart n];
            req = GetAnalyzeFormResult modelId resultId
                    (operationOptionsToRequestOptionsBase env (optionsInSpan env n so))
        in (map_sum Thrown id (fetchResult env (client this) w1 req),
            w1 @ [Sent req, SpanEnd n]))"
    by (rule getCustomForms_run)
next
  show "case fst (beginRecognizeCustomForms env this enclosingModelId form optionsArg w0) of
      Inl e \<Rightarrow> True
    | Inr poller \<Rightarrow>
        (\<exists>ro. requests (snd (bind_io (getResult poller (resultId, modelId)) await w))
                = requests w @ [GetAnalyzeFormResult modelId resultId ro])"
  proof (cases "beginRecognizeCustomForms env this enclosingModelId form optionsArg w0")
    case (Pair r w')
    then show ?thesis
      by (cases r)
        (simp_all add: beginRecognizeCustomForms_getResult getCustomForms_run Let_def
           requests_append requests_simps)
  qed
next
  show "case fst (beginRecognizeCustomFormsFromUrl env this enclosingModelId formUrl optionsArg w0) of
      Inl e \<Rightarrow> True
    | Inr poller \<Rightarrow>
        (\<exists>ro. requests (snd (bind_io (getResult poller (resultId, modelId)) await w))
                = requests w @ [GetAnalyzeFormResult modelId resultId ro])"
  proof (cases "beginRecognizeCustomFormsFromUrl env this enclosingModelId formUrl optionsArg w0")
    case (Pair r w')
    then show ?thesis
      by (cases r)
        (simp_all add: beginRecognizeCustomFormsFromUrl_getResult getCustomForms_run Let_def
           requests_append requests_simps)
  qed
qed

theorem getCustomForms_uses_its_parameter_witness:
  "\<exists>poller ro.
     fst (beginRecognizeCustomForms (exampleEnv (Some ''https://example.test/operations/abc123'') running)
            exampleClient ''model1'' (Buffer pdfBytes) None []) = Inr poller \<and>
     requests (snd (bind_io (getResult poller (''abc123'', Some ''model2'')) await []))
       = requests [] @ [GetAnalyzeFormResult (Some ''model2'') ''abc123'' ro]"
proof -
  from example_begin obtain poller where
    p: "fst (beginRecognizeCustomForms (exampleEnv (Some ''https://example.test/operations/abc123'') running)
               exampleClient ''model1'' (Buffer pdfBytes) None []) = Inr poller" ..
  from getCustomForms_uses_its_parameter
         [of "(exampleEnv (Some ''https://example.test/operations/abc123'') running)" "''FormRecognizerClient-beginRecognizeCustomForms''"
             emptyOptions "''getCustomForms''" exampleClient "''model1''" "''abc123''"
             "Some ''model2''" "[]" "Buffer pdfBytes" None "[]"] p
  show ?thesis by auto
qed

section \<open>Progress and the first status check\<close>

text \<open>
  Claim C5. A poller that has made no status check yet is polled; its two operations do
  not fire the progress callback themselves. If the poller is terminal after the poll
  (the operation was found complete by the very first status check, or was complete
  already), the progress callback was not invoked: the notifications in the log are those
  that were there before. So a caller cannot rely on at least one progress event.
\<close>

theorem first_check_terminal_no_progress:
  assumes "rawResult (pollState p) = None"
    and "\<And>w'. progressEvents (snd (bind_io (createOperation p ()) await w')) = progressEvents w'"
    and "\<And>a w'. progressEvents (snd (bind_io (getResult p a) await w')) = progressEvents w'"
    and "isTerminal (pstatus (pollState (fst (snd (poll p w)))))"
  shows "progressEvents (snd (snd (poll p w))) = progressEvents w"
proof (cases "isTerminal (pstatus (pollState p))")
  case True
  then show ?thesis by (simp add: poll_terminal)
next
  case running: False
  obtain r w1 where init:
    "(case handle (pollState p) of
        Some h \<Rightarrow> return_io h w
      | None \<Rightarrow> bind_io (createOperation p ()) await w) = (r, w1)"
    by (cases "case handle (pollState p) of
        Some h \<Rightarrow> return_io h w
      | None \<Rightarrow> bind_io (createOperation p ()) await w")
  have w1: "progressEvents w1 = progressEvents w"
    using init assms(2) [of w]
    by (cases "handle (pollState p)") (auto simp: return_io_def)
  show ?thesis
  proof (cases r)
    case (Inl e)
    with init running have "poll p w = (Inl e, p, w1)" by (simp add: poll_def)
    with w1 show ?thesis by simp
  next
    case started: (Inr h)
    obtain fr w2 where fetched:
      "bind_io (getResult p (h, secondaryId p)) await w1 = (fr, w2)"
      by (cases "bind_io (getResult p (h, secondaryId p)) await w1")
    have w2: "progressEvents w2 = progressEvents w"
      using fetched assms(3) [of "(h, secondaryId p)" w1] w1 by simp
    show ?thesis
    proof (cases fr)
      case (Inl e)
      with init started fetched running w2 show ?thesis by (simp add: poll_def)
    next
      case (Inr res)
      have "isTerminal (fromOperationStatus (status res))"
        using assms(1,4) init started fetched Inr running
        by (simp add: poll_def Let_def split: if_splits prod.splits)
      with assms(1) init started fetched Inr running w2 show ?thesis
        by (simp add: poll_def Let_def)
    qed
  qed
qed

theorem first_check_terminal_no_progress_witness:
  "rawResult (pollState examplePoller) = None \<and>
   (\<forall>w'. progressEvents (snd (bind_io (createOperation examplePoller ()) await w'))
           = progressEvents w') \<and>
   (\<forall>a w'. progressEvents (snd (bind_io (getResult examplePoller a) await w'))
           = progressEvents w') \<and>
   isTerminal (pstatus (pollState (fst (snd (poll examplePoller []))))) \<and>
   progressCallback examplePoller \<noteq> None \<and>
   progressEvents (snd (snd (poll examplePoller []))) = progressEvents []"
proof -
  have a: "rawResult (pollState examplePoller) = None" by (simp add: examplePoller_def)
  have b: "progressEvents (snd (bind_io (createOperation examplePoller ()) await w'))
             = progressEvents w'" for w'
    by (simp add: examplePoller_def receiptsInternalFromUrl_run Let_def progressEvents_append
        progressEvents_simps)
  have c: "progressEvents (snd (bind_io (getResult examplePoller a) await w'))
             = progressEvents w'" for a w'
    by (cases a)
      (simp add: examplePoller_def getReceipts_run Let_def progressEvents_append
        progressEvents_simps)
  have d: "isTerminal (pstatus (pollState (fst (snd (poll examplePoller [])))))"
    by (simp add: poll_def examplePoller_def receiptsInternalFromUrl_run getReceipts_run Let_def
        return_io_def exampleEnv_def processOperationLocation_def substring_def)
  have e: "progressCallback examplePoller \<noteq> None" by (simp add: examplePoller_def)
  from first_check_terminal_no_progress [of examplePoller "[]", OF a b c d] a b c d e
  show ?thesis by blast
qed

section \<open>Fetching recognized content\<close>

text \<open>
  Claim C7. One call of \<open>getRecognizedContent\<close> hands exactly one request to the
  generated client, \<open>getAnalyzeLayoutResult\<close> for the given result id; and when the
  generated client fails with an error object, that same object is what the call throws:
  there is no second attempt. When the service answers, the outcome is that of the
  transform: its value, or the error object it throws.
\<close>

theorem getRecognizedContent_one_call:
  "(let n = ''FormRecognizerClient-getRecognizedLayoutResult'';
        req = GetAnalyzeLayoutResult resultId
                (operationOptionsToRequestOptionsBase env
                   (optionsInSpan env n
                      (case options of None \<Rightarrow> emptyOptions | Some opts \<Rightarrow> opts)))
    in requests (snd (getRecognizedContent env this resultId options w)) = requests w @ [req] \<and>
       (case fetchResult env (client this) (w @ [SpanStart n]) req of
          Inl e \<Rightarrow> fst (getRecognizedContent env this resultId options w) = Inl (Thrown e)
        | Inr res \<Rightarrow>
            fst (getRecognizedContent env this resultId options w)
              = map_sum Thrown id (toRecognizeContentResultResponse env res)))"
  by (simp add: getRecognizedContent_run Let_def requests_append requests_simps
      split: sum.splits)

section \<open>The authentication policy\<close>

text \<open>
  Claim C8. The client that the constructor builds has, as the authentication policy of
  its pipeline, the bearer token policy for the credential and the scope
  \<open>DEFAULT_COGNITIVE_SCOPE\<close> when the credential is a token credential, and the key
  credential policy otherwise. Nothing else depends on the credential: for any two
  credentials the endpoints and the options of the pipeline are the same, and the methods
  are the same functions of the client.
\<close>

theorem constructor_authPolicy:
  "authPolicy (pipeline (client (new_FormRecognizerClient env url credential options)))
     = (if isTokenCredential credential
        then bearerTokenAuthenticationPolicy credential (DEFAULT_COGNITIVE_SCOPE env)
        else createFormRecognizerAzureKeyCredentialPolicy credential) \<and>
   endpointUrl (new_FormRecognizerClient env url credential options)
     = endpointUrl (new_FormRecognizerClient env url credential' options) \<and>
   endpoint (client (new_FormRecognizerClient env url credential options))
     = endpoint (client (new_FormRecognizerClient env url credential' options)) \<and>
   pipelineOptions (pipeline (client (new_FormRecognizerClient env url credential options)))
     = pipelineOptions (pipeline (client (new_FormRecognizerClient env url credential' options)))"
  by (simp add: new_FormRecognizerClient_def Let_def)

section \<open>The spanner and what the handler throws\<close>





end
